theory Spec2Isabelle
  imports Main "HOL-Library.Word"
begin

text \<open>
  The session controller of the Android speech-recognition plugin
  (\<^verbatim>\<open>SpeechRecognitionPlugin.java\<close>): its error mapper, the merging of partial results, the
  plugin methods \<^verbatim>\<open>start\<close>, \<^verbatim>\<open>stop\<close> and \<^verbatim>\<open>isListening\<close>, the runnables it posts to the main
  thread, \<^verbatim>\<open>finishSession\<close>, and the callbacks of its recognition listener, as functions on
  an explicit state; then the properties of single calls and of whole runs.
\<close>

section \<open>Error and reason mapper\<close>

text \<open>
  The native error codes are the constants of \<^verbatim>\<open>android.speech.SpeechRecognizer\<close>
  (Android SDK), which \<^verbatim>\<open>getErrorCode\<close>, \<^verbatim>\<open>getErrorText\<close> and
  \<^verbatim>\<open>onError\<close> of \<^verbatim>\<open>SpeechRecognitionPlugin.java\<close> switch on.
\<close>

definition ERROR_NETWORK_TIMEOUT :: int where "ERROR_NETWORK_TIMEOUT = 1"
definition ERROR_NETWORK :: int where "ERROR_NETWORK = 2"
definition ERROR_AUDIO :: int where "ERROR_AUDIO = 3"
definition ERROR_SERVER :: int where "ERROR_SERVER = 4"
definition ERROR_CLIENT :: int where "ERROR_CLIENT = 5"
definition ERROR_SPEECH_TIMEOUT :: int where "ERROR_SPEECH_TIMEOUT = 6"
definition ERROR_NO_MATCH :: int where "ERROR_NO_MATCH = 7"
definition ERROR_RECOGNIZER_BUSY :: int where "ERROR_RECOGNIZER_BUSY = 8"
definition ERROR_INSUFFICIENT_PERMISSIONS :: int where "ERROR_INSUFFICIENT_PERMISSIONS = 9"

text \<open>Java's string concatenation \<^verbatim>\<open>"UNKNOWN_" + errorCode\<close> renders the int in decimal,
  with a leading minus sign for a negative value.\<close>

fun digit_chars :: "nat \<Rightarrow> string" where
  "digit_chars n =
     (if n < 10 then [''0123456789'' ! n]
      else digit_chars (n div 10) @ [''0123456789'' ! (n mod 10)])"

definition Integer_toString :: "int \<Rightarrow> string" where
  "Integer_toString i =
     (if i < 0 then CHR ''-'' # digit_chars (nat (- i)) else digit_chars (nat i))"

definition getErrorCode :: "int \<Rightarrow> string" where
  "getErrorCode errorCode =
     (if errorCode = ERROR_AUDIO then ''AUDIO''
      else if errorCode = ERROR_CLIENT then ''CLIENT''
      else if errorCode = ERROR_INSUFFICIENT_PERMISSIONS then ''INSUFFICIENT_PERMISSIONS''
      else if errorCode = ERROR_NETWORK then ''NETWORK''
      else if errorCode = ERROR_NETWORK_TIMEOUT then ''NETWORK_TIMEOUT''
      else if errorCode = ERROR_NO_MATCH then ''NO_MATCH''
      else if errorCode = ERROR_RECOGNIZER_BUSY then ''RECOGNIZER_BUSY''
      else if errorCode = ERROR_SERVER then ''SERVER''
      else if errorCode = ERROR_SPEECH_TIMEOUT then ''SPEECH_TIMEOUT''
      else ''UNKNOWN_'' @ Integer_toString errorCode)"

definition getErrorText :: "int \<Rightarrow> string" where
  "getErrorText errorCode =
     (if errorCode = ERROR_AUDIO then ''Audio recording error''
      else if errorCode = ERROR_CLIENT then ''Client side error''
      else if errorCode = ERROR_INSUFFICIENT_PERMISSIONS then ''Insufficient permissions''
      else if errorCode = ERROR_NETWORK then ''Network error''
      else if errorCode = ERROR_NETWORK_TIMEOUT then ''Network timeout''
      else if errorCode = ERROR_NO_MATCH then ''No match''
      else if errorCode = ERROR_RECOGNIZER_BUSY then ''RecognitionService busy''
      else if errorCode = ERROR_SERVER then ''Error from server''
      else if errorCode = ERROR_SPEECH_TIMEOUT then ''No speech input''
      else ''Didn't understand, please try again.'')"

text \<open>The reason that \<^verbatim>\<open>onError\<close> derives from the native code before it finishes the
  session (the \<^verbatim>\<open>if\<close> on \<^verbatim>\<open>error\<close> in its body).\<close>

definition onError_reason :: "int \<Rightarrow> string" where
  "onError_reason error =
     (if error = ERROR_NO_MATCH \<or> error = ERROR_SPEECH_TIMEOUT then ''silence'' else ''error'')"

definition mapped_codes :: "int set" where
  "mapped_codes =
     {ERROR_AUDIO, ERROR_CLIENT, ERROR_INSUFFICIENT_PERMISSIONS, ERROR_NETWORK,
      ERROR_NETWORK_TIMEOUT, ERROR_NO_MATCH, ERROR_RECOGNIZER_BUSY, ERROR_SERVER,
      ERROR_SPEECH_TIMEOUT}"


section \<open>Strings, bundles and JSON payloads\<close>

text \<open>\<^verbatim>\<open>String.trim()\<close> removes, at both ends, every character whose code is at most that of
  the space; \<^verbatim>\<open>String.endsWith\<close> compares the tail of the string with the suffix.\<close>

definition isTrimmed :: "char \<Rightarrow> bool" where
  "isTrimmed c = (of_char c \<le> (32::nat))"

definition trim :: "string \<Rightarrow> string" where
  "trim s = rev (dropWhile isTrimmed (rev (dropWhile isTrimmed s)))"

definition endsWith :: "string \<Rightarrow> string \<Rightarrow> bool" where
  "endsWith s suffix =
     (length suffix \<le> length s \<and> drop (length s - length suffix) s = suffix)"

text \<open>The two entries of the engine's result \<^verbatim>\<open>Bundle\<close> that the listener reads. A missing
  entry and a \<^verbatim>\<open>null\<close> list element are \<open>None\<close>.\<close>

record Bundle =
  RESULTS_RECOGNITION :: "string option list option"
  UNSTABLE_TEXT :: "string option"

definition buildMatchesWithUnstableText :: "Bundle \<Rightarrow> string option list option" where
  "buildMatchesWithUnstableText resultsBundle =
     (case RESULTS_RECOGNITION resultsBundle of
        None \<Rightarrow> None
      | Some [] \<Rightarrow> Some []
      | Some (firstMatch # others) \<Rightarrow>
          (case UNSTABLE_TEXT resultsBundle of
             None \<Rightarrow> Some (firstMatch # others)
           | Some unstableText \<Rightarrow>
               (let trimmedUnstable = trim unstableText in
                if trimmedUnstable = [] then Some (firstMatch # others)
                else
                  (case firstMatch of
                     None \<Rightarrow> Some (firstMatch # others)
                   | Some fm \<Rightarrow>
                       (let trimmedFirstMatch = trim fm in
                        if trimmedFirstMatch = trimmedUnstable
                           \<or> endsWith trimmedFirstMatch ('' '' @ trimmedUnstable)
                        then Some (firstMatch # others)
                        else Some (Some (trimmedFirstMatch @ '' '' @ trimmedUnstable) # others))))))"

text \<open>A \<^verbatim>\<open>JSObject\<close> is a list of key/value pairs in insertion order; \<^verbatim>\<open>put\<close> replaces the
  value of a key that is present and appends otherwise; putting \<^verbatim>\<open>null\<close> removes the key.\<close>

datatype jsvalue = JString string | JLong int | JBoolean bool | JArray "string option list"

type_synonym JSObject = "(string \<times> jsvalue) list"

fun put :: "string \<Rightarrow> jsvalue \<Rightarrow> JSObject \<Rightarrow> JSObject" where
  "put k v [] = [(k, v)]"
| "put k v ((k', v') # kvs) = (if k = k' then (k, v) # kvs else (k', v') # put k v kvs)"

definition putString :: "string \<Rightarrow> string option \<Rightarrow> JSObject \<Rightarrow> JSObject" where
  "putString k v obj =
     (case v of None \<Rightarrow> filter (\<lambda>kv. fst kv \<noteq> k) obj | Some s \<Rightarrow> put k (JString s) obj)"

text \<open>\<^verbatim>\<open>new JSArray(matches)\<close>: a \<^verbatim>\<open>null\<close> collection gives the empty array.\<close>

definition JSArray :: "string option list option \<Rightarrow> string option list" where
  "JSArray matches = (case matches of None \<Rightarrow> [] | Some ms \<Rightarrow> ms)"

section \<open>The plugin, its main-thread queue and the engine\<close>

datatype ListeningState = IDLE | STARTING | STARTED | STOPPING

text \<open>Modelled from the spec: \<^verbatim>\<open>Constants.java\<close>, which declares the event names and the
  two rejection messages, is not among the sources. The six event names
  (\<^verbatim>\<open>listeningState\<close>, \<^verbatim>\<open>partialResults\<close>, \<^verbatim>\<open>segmentResults\<close>, \<^verbatim>\<open>endOfSegmentedSession\<close>,
  \<^verbatim>\<open>error\<close>, \<^verbatim>\<open>readyForNextSession\<close>) are different strings; they and the messages are kept
  symbolic, one constructor per constant.\<close>

datatype event_name =
  LISTENING_EVENT | PARTIAL_RESULTS_EVENT | SEGMENT_RESULTS_EVENT | END_OF_SEGMENT_EVENT
  | ERROR_EVENT | READY_FOR_NEXT_SESSION_EVENT

datatype message = NOT_AVAILABLE | MISSING_PERMISSION | Text "string option"

type_synonym PluginCall = nat

datatype reply = Resolve JSObject | ResolveVoid | Reject message | Unavailable message

type_synonym event = "event_name \<times> JSObject"

record SpeechRecognitionListener =
  listenerSessionId :: "64 word"
  call :: "PluginCall option"
  partialResults :: bool

text \<open>A recognizer is identified with the listener attached to it (\<open>None\<close> before
  \<^verbatim>\<open>setRecognitionListener\<close>).\<close>

type_synonym SpeechRecognizer = "SpeechRecognitionListener option"

text \<open>The runnables posted to the main thread: the body of \<^verbatim>\<open>beginListening\<close>'s post (call,
  partialResults, currentSessionId), of \<^verbatim>\<open>stopListening\<close>'s post, and of \<^verbatim>\<open>finishSession\<close>'s
  post (finishedSessionId, reason, errorCode).\<close>

datatype task =
  BeginTask PluginCall bool "64 word"
  | StopListeningTask
  | RecreateTask "64 word" string "string option"

text \<open>
  The first six fields are the fields of \<^verbatim>\<open>SpeechRecognitionPlugin\<close> (\<^verbatim>\<open>sessionId\<close> is a Java
  \<^verbatim>\<open>long\<close>). The others are the plugin's surroundings: \<open>events\<close> logs every
  \<^verbatim>\<open>notifyListeners\<close>, \<open>replies\<close> every completion of a \<^verbatim>\<open>PluginCall\<close>, \<open>mainQueue\<close> holds
  the posted runnables in order, and \<open>engine\<close> holds the listeners of the recognizers on
  which \<^verbatim>\<open>startListening\<close> has returned: the engine may call back any of them, also after
  the recognizer was cancelled and destroyed.
\<close>

record plugin =
  speechRecognizer :: "SpeechRecognizer option"
  listening :: bool
  previousPartialResults :: "string option list"
  state :: ListeningState
  sessionId :: "64 word"
  readyForNext :: bool
  events :: "event list"
  replies :: "(PluginCall \<times> reply) list"
  mainQueue :: "task list"
  engine :: "SpeechRecognitionListener list"

text \<open>
  The initial state is the one of the field initialisers. \<^verbatim>\<open>load\<close> also posts the creation
  of a first recognizer; its listener is built without a session id and is never started,
  and the begin runnable replaces the recognizer, so that runnable is left out.
\<close>

definition init :: plugin where
  "init = \<lparr> speechRecognizer = None, listening = False, previousPartialResults = [],
            state = IDLE, sessionId = 0, readyForNext = True,
            events = [], replies = [], mainQueue = [], engine = [] \<rparr>"

definition notifyListeners :: "event_name \<Rightarrow> JSObject \<Rightarrow> plugin \<Rightarrow> plugin" where
  "notifyListeners name payload w = w\<lparr>events := events w @ [(name, payload)]\<rparr>"

definition respond :: "PluginCall \<Rightarrow> reply \<Rightarrow> plugin \<Rightarrow> plugin" where
  "respond c r w = w\<lparr>replies := replies w @ [(c, r)]\<rparr>"

definition post :: "task \<Rightarrow> plugin \<Rightarrow> plugin" where
  "post t w = w\<lparr>mainQueue := mainQueue w @ [t]\<rparr>"

subsection \<open>Payloads\<close>

definition startingPayload :: "64 word \<Rightarrow> JSObject" where
  "startingPayload currentSessionId =
     put ''reason'' (JString ''userStart'')
       (put ''sessionId'' (JLong (sint currentSessionId))
         (put ''state'' (JString ''startingListening'') []))"

definition startedPayload :: "64 word \<Rightarrow> JSObject" where
  "startedPayload currentSessionId =
     put ''status'' (JString ''started'')
       (put ''reason'' (JString ''userStart'')
         (put ''sessionId'' (JLong (sint currentSessionId))
           (put ''state'' (JString ''started'') [])))"

definition stoppingPayload :: "64 word \<Rightarrow> string \<Rightarrow> string option \<Rightarrow> JSObject" where
  "stoppingPayload sid reason errorCode =
     (let p = put ''reason'' (JString reason)
                (put ''sessionId'' (JLong (sint sid))
                  (put ''state'' (JString ''stoppingListening'') []))
      in case errorCode of None \<Rightarrow> p | Some ec \<Rightarrow> put ''errorCode'' (JString ec) p)"

definition stoppedPayload :: "64 word \<Rightarrow> string \<Rightarrow> string option \<Rightarrow> JSObject" where
  "stoppedPayload sid reason errorCode =
     (let p = put ''reason'' (JString reason)
                (put ''sessionId'' (JLong (sint sid))
                  (put ''state'' (JString ''stopped'') []))
      in put ''status'' (JString ''stopped'')
           (case errorCode of None \<Rightarrow> p | Some ec \<Rightarrow> put ''errorCode'' (JString ec) p))"

definition errorPayload :: "string \<Rightarrow> string option \<Rightarrow> 64 word \<Rightarrow> JSObject" where
  "errorPayload code msg sid =
     put ''sessionId'' (JLong (sint sid))
       (putString ''message'' msg (put ''code'' (JString code) []))"

definition readyPayload :: "64 word \<Rightarrow> JSObject" where
  "readyPayload finishedSessionId = put ''sessionId'' (JLong (sint finishedSessionId)) []"

definition matchesPayload :: "string option list \<Rightarrow> JSObject" where
  "matchesPayload ms = put ''matches'' (JArray ms) []"

subsection \<open>The session controller\<close>

text \<open>Of the options of a \<^verbatim>\<open>start\<close> call, \<^verbatim>\<open>partialResults\<close> and \<^verbatim>\<open>popup\<close> decide the control
  flow; language, maxResults, prompt and allowForSilence only fill the intent handed to the
  engine.\<close>

record StartOptions =
  opt_partialResults :: bool
  opt_popup :: bool

definition finishSession :: "64 word \<Rightarrow> string \<Rightarrow> string option \<Rightarrow> plugin \<Rightarrow> plugin" where
  "finishSession finishedSessionId reason errorCode w =
     (if finishedSessionId \<noteq> sessionId w then w
      else
        let w1 = (if state w \<noteq> STOPPING
                  then notifyListeners LISTENING_EVENT
                         (stoppingPayload finishedSessionId reason errorCode)
                         (w\<lparr>state := STOPPING\<rparr>)
                  else w);
            w2 = w1\<lparr>speechRecognizer := None, state := IDLE, listening := False,
                     readyForNext := False\<rparr>
        in post (RecreateTask finishedSessionId reason errorCode) w2)"

definition beginListening ::
  "bool \<Rightarrow> bool \<Rightarrow> PluginCall \<Rightarrow> 64 word \<Rightarrow> plugin \<Rightarrow> plugin" where
  "beginListening partialRes showPopup c currentSessionId w =
     (if showPopup then w
      else post (BeginTask c partialRes currentSessionId) w)"

text \<open>\<open>available\<close> is \<^verbatim>\<open>SpeechRecognizer.isRecognitionAvailable\<close> and \<open>granted\<close> is
  \<^verbatim>\<open>getPermissionState(SPEECH_RECOGNITION) == GRANTED\<close> at the time of the call.\<close>

definition start :: "bool \<Rightarrow> bool \<Rightarrow> PluginCall \<Rightarrow> StartOptions \<Rightarrow> plugin \<Rightarrow> plugin" where
  "start available granted c opts w =
     (if \<not> available then respond c (Unavailable NOT_AVAILABLE) w
      else if \<not> granted then respond c (Reject MISSING_PERMISSION) w
      else
        let currentSessionId = sessionId w + 1;
            w1 = w\<lparr>sessionId := currentSessionId, state := STARTING\<rparr>;
            w2 = notifyListeners LISTENING_EVENT (startingPayload currentSessionId) w1
        in beginListening (opt_partialResults opts) (opt_popup opts) c currentSessionId w2)"

definition stopListening :: "plugin \<Rightarrow> plugin" where
  "stopListening w = post StopListeningTask w"

definition stop :: "PluginCall \<Rightarrow> plugin \<Rightarrow> plugin" where
  "stop c w =
     (if state w = IDLE then respond c ResolveVoid w
      else
        let w1 = w\<lparr>state := STOPPING\<rparr>;
            w2 = notifyListeners LISTENING_EVENT
                   (stoppingPayload (sessionId w1) ''userStop'' None) w1
        in respond c ResolveVoid (stopListening w2))"

definition isListening :: "PluginCall \<Rightarrow> plugin \<Rightarrow> plugin" where
  "isListening c w = respond c (Resolve (put ''listening'' (JBoolean (listening w)) [])) w"

text \<open>The result of the popup activity: \<^verbatim>\<open>RESULT_OK\<close> with the \<^verbatim>\<open>EXTRA_RESULTS\<close> list of its
  data, \<^verbatim>\<open>RESULT_OK\<close> whose data cannot be read (the exception's message), or a result
  code other than \<^verbatim>\<open>RESULT_OK\<close>.\<close>

datatype ActivityResult =
  ResultOk "string option list option"
  | ResultOkThrows "string option"
  | ResultCode int

definition listeningResult :: "PluginCall option \<Rightarrow> ActivityResult \<Rightarrow> plugin \<Rightarrow> plugin" where
  "listeningResult callOpt result w =
     (case callOpt of
        None \<Rightarrow> w
      | Some c \<Rightarrow>
          (let w1 = (case result of
                       ResultOk matchesList \<Rightarrow>
                         respond c (Resolve (matchesPayload (JSArray matchesList))) w
                     | ResultOkThrows m \<Rightarrow> respond c (Reject (Text m)) w
                     | ResultCode resultCode \<Rightarrow>
                         respond c (Reject (Text (Some (Integer_toString resultCode)))) w)
           in w1\<lparr>listening := False\<rparr>))"

subsection \<open>The posted runnables\<close>

text \<open>What the native calls of a runnable do: all return, or one of them throws (with the
  exception's message): \<^verbatim>\<open>cancel\<close>/\<^verbatim>\<open>destroy\<close> of the old recognizer,
  \<^verbatim>\<open>createSpeechRecognizer\<close>, or the first call on the new recognizer
  (\<^verbatim>\<open>startListening\<close> in the begin runnable, with the listener attached;
  \<^verbatim>\<open>setRecognitionListener\<close> in the recreate runnable, which has no other). A recognizer
  whose \<^verbatim>\<open>startListening\<close> threw does not call back.\<close>

datatype native_outcome =
  NativeOk
  | DestroyThrows "string option"
  | CreateThrows "string option"
  | StartThrows "string option"

definition beginFailed :: "string option \<Rightarrow> PluginCall \<Rightarrow> 64 word \<Rightarrow> plugin \<Rightarrow> plugin" where
  "beginFailed m c currentSessionId w =
     respond c (Reject (Text m))
       (finishSession currentSessionId ''error'' (Some ''START_FAILED'')
          (notifyListeners ERROR_EVENT (errorPayload ''START_FAILED'' m currentSessionId) w))"

definition beginTask ::
  "native_outcome \<Rightarrow> PluginCall \<Rightarrow> bool \<Rightarrow> 64 word \<Rightarrow> plugin \<Rightarrow> plugin" where
  "beginTask outcome c partialRes currentSessionId w =
     (let listener = \<lparr> listenerSessionId = currentSessionId, call = Some c,
                        partialResults = partialRes \<rparr>
      in case outcome of
           NativeOk \<Rightarrow>
             (let w1 = w\<lparr>speechRecognizer := Some (Some listener),
                          engine := engine w @ [listener],
                          listening := True, state := STARTED\<rparr>;
                  w2 = notifyListeners LISTENING_EVENT (startedPayload currentSessionId) w1
              in if partialRes then respond c ResolveVoid w2 else w2)
         | DestroyThrows m \<Rightarrow> beginFailed m c currentSessionId w
         | CreateThrows m \<Rightarrow>
             beginFailed m c currentSessionId (w\<lparr>speechRecognizer := None\<rparr>)
         | StartThrows m \<Rightarrow>
             beginFailed m c currentSessionId (w\<lparr>speechRecognizer := Some (Some listener)\<rparr>))"

text \<open>\<^verbatim>\<open>speechRecognizer.stopListening()\<close> on a \<^verbatim>\<open>null\<close> recognizer throws, and the runnable
  rethrows: the result is \<open>None\<close>.\<close>

definition stopListeningTask :: "plugin \<Rightarrow> plugin option" where
  "stopListeningTask w =
     (if listening w
      then (case speechRecognizer w of
              None \<Rightarrow> None
            | Some r \<Rightarrow> Some (w\<lparr>listening := False\<rparr>))
      else Some w)"

definition recreateTask ::
  "native_outcome \<Rightarrow> 64 word \<Rightarrow> string \<Rightarrow> string option \<Rightarrow> plugin \<Rightarrow> plugin" where
  "recreateTask outcome finishedSessionId reason errorCode w =
     (let failed = (\<lambda>m w'. notifyListeners ERROR_EVENT
                              (errorPayload ''RECREATE_FAILED'' m finishedSessionId) w');
          w1 = (case outcome of
                  NativeOk \<Rightarrow>
                    notifyListeners READY_FOR_NEXT_SESSION_EVENT (readyPayload finishedSessionId)
                      (w\<lparr>speechRecognizer :=
                            Some (Some \<lparr> listenerSessionId = sessionId w, call = None,
                                         partialResults = False \<rparr>),
                          readyForNext := True\<rparr>)
                | DestroyThrows m \<Rightarrow> failed m w
                | CreateThrows m \<Rightarrow> failed m w
                | StartThrows m \<Rightarrow> failed m (w\<lparr>speechRecognizer := Some None\<rparr>))
      in notifyListeners LISTENING_EVENT (stoppedPayload finishedSessionId reason errorCode) w1)"

fun runTask :: "native_outcome \<Rightarrow> task \<Rightarrow> plugin \<Rightarrow> plugin option" where
  "runTask outcome (BeginTask c partialRes sid) w = Some (beginTask outcome c partialRes sid w)"
| "runTask outcome StopListeningTask w = stopListeningTask w"
| "runTask outcome (RecreateTask fid reason errorCode) w =
     Some (recreateTask outcome fid reason errorCode w)"

subsection \<open>The callback router\<close>

definition onError :: "SpeechRecognitionListener \<Rightarrow> int \<Rightarrow> plugin \<Rightarrow> plugin" where
  "onError l error w =
     (let currentSessionId = listenerSessionId l;
          errorCode = getErrorCode error;
          errorMessage = getErrorText error;
          w1 = notifyListeners ERROR_EVENT
                 (errorPayload errorCode (Some errorMessage) currentSessionId) w;
          w2 = finishSession currentSessionId (onError_reason error) (Some errorCode) w1
      in case call l of
           None \<Rightarrow> w2
         | Some c \<Rightarrow>
             if \<not> partialResults l then respond c (Reject (Text (Some errorMessage))) w2
             else w2)"

text \<open>\<open>thrown\<close> is the exception, if any, that building the JSON array raises at the
  head of the \<^verbatim>\<open>try\<close> block of \<^verbatim>\<open>onResults\<close> (its message).\<close>

definition onResults ::
  "SpeechRecognitionListener \<Rightarrow> Bundle \<Rightarrow> string option option \<Rightarrow> plugin \<Rightarrow> plugin" where
  "onResults l results thrown w =
     (let currentSessionId = listenerSessionId l;
          matches = buildMatchesWithUnstableText results
      in case thrown of
           None \<Rightarrow>
             (let jsArray = JSArray matches;
                  w1 = (case call l of
                          None \<Rightarrow> w
                        | Some c \<Rightarrow>
                            if \<not> partialResults l
                            then respond c
                                   (Resolve (put ''matches'' (JArray jsArray)
                                      (put ''status'' (JString ''success'') []))) w
                            else notifyListeners PARTIAL_RESULTS_EVENT (matchesPayload jsArray) w)
              in finishSession currentSessionId ''results'' None w1)
         | Some m \<Rightarrow>
             (let w1 = (case call l of
                          None \<Rightarrow> w
                        | Some c \<Rightarrow>
                            respond c
                              (Resolve (putString ''message'' m
                                 (put ''status'' (JString ''error'') []))) w)
              in finishSession currentSessionId ''error''
                   (Some ''RESULTS_PROCESSING_FAILED'') w1))"

text \<open>\<^verbatim>\<open>previousPartialResults.equals(matchesJSON)\<close> compares the two arrays by their
  contents (Android's \<^verbatim>\<open>org.json.JSONArray\<close>).\<close>

definition onPartialResults :: "SpeechRecognitionListener \<Rightarrow> Bundle \<Rightarrow> plugin \<Rightarrow> plugin" where
  "onPartialResults l partialResultsBundle w =
     (case buildMatchesWithUnstableText partialResultsBundle of
        None \<Rightarrow> w
      | Some matches \<Rightarrow>
          if matches = [] then w
          else if previousPartialResults w \<noteq> matches
          then notifyListeners PARTIAL_RESULTS_EVENT (matchesPayload matches)
                 (w\<lparr>previousPartialResults := matches\<rparr>)
          else w)"

definition onSegmentResults :: "SpeechRecognitionListener \<Rightarrow> Bundle \<Rightarrow> plugin \<Rightarrow> plugin" where
  "onSegmentResults l results w =
     (case RESULTS_RECOGNITION results of
        None \<Rightarrow> w
      | Some matches \<Rightarrow> notifyListeners SEGMENT_RESULTS_EVENT (matchesPayload matches) w)"

definition onEndOfSegmentedSession :: "SpeechRecognitionListener \<Rightarrow> plugin \<Rightarrow> plugin" where
  "onEndOfSegmentedSession l w = notifyListeners END_OF_SEGMENT_EVENT [] w"

text \<open>\<^verbatim>\<open>onReadyForSpeech\<close>, \<^verbatim>\<open>onBeginningOfSpeech\<close>, \<^verbatim>\<open>onRmsChanged\<close>, \<^verbatim>\<open>onBufferReceived\<close>,
  \<^verbatim>\<open>onEndOfSpeech\<close> and \<^verbatim>\<open>onEvent\<close> have empty bodies (or only log).\<close>

definition onSilentCallback :: "SpeechRecognitionListener \<Rightarrow> plugin \<Rightarrow> plugin" where
  "onSilentCallback l w = w"

subsection \<open>Runs\<close>

text \<open>
  One action is one call of a plugin method, one engine callback, or the next runnable of
  the main thread. Each runs to its end before the next one begins, as the lock and the
  main thread make the code's blocks do. A callback is possible only for a listener the
  engine has; \<open>RunNext\<close> needs a posted runnable. \<open>None\<close> is an action that cannot
  happen, or a runnable that throws.
\<close>

datatype action =
  Start bool bool PluginCall StartOptions
  | Stop PluginCall
  | IsListening PluginCall
  | ListeningResult "PluginCall option" ActivityResult
  | RunNext native_outcome
  | OnError SpeechRecognitionListener int
  | OnResults SpeechRecognitionListener Bundle "string option option"
  | OnPartialResults SpeechRecognitionListener Bundle
  | OnSegmentResults SpeechRecognitionListener Bundle
  | OnEndOfSegmentedSession SpeechRecognitionListener
  | OnSilentCallback SpeechRecognitionListener

definition callback :: "SpeechRecognitionListener \<Rightarrow> plugin \<Rightarrow> plugin \<Rightarrow> plugin option" where
  "callback l w w' = (if l \<in> set (engine w) then Some w' else None)"

fun step :: "action \<Rightarrow> plugin \<Rightarrow> plugin option" where
  "step (Start available granted c opts) w = Some (start available granted c opts w)"
| "step (Stop c) w = Some (stop c w)"
| "step (IsListening c) w = Some (isListening c w)"
| "step (ListeningResult callOpt result) w = Some (listeningResult callOpt result w)"
| "step (RunNext outcome) w =
     (case mainQueue w of
        [] \<Rightarrow> None
      | t # ts \<Rightarrow> runTask outcome t (w\<lparr>mainQueue := ts\<rparr>))"
| "step (OnError l error) w = callback l w (onError l error w)"
| "step (OnResults l results thrown) w = callback l w (onResults l results thrown w)"
| "step (OnPartialResults l b) w = callback l w (onPartialResults l b w)"
| "step (OnSegmentResults l b) w = callback l w (onSegmentResults l b w)"
| "step (OnEndOfSegmentedSession l) w = callback l w (onEndOfSegmentedSession l w)"
| "step (OnSilentCallback l) w = callback l w (onSilentCallback l w)"

fun run :: "action list \<Rightarrow> plugin \<Rightarrow> plugin option" where
  "run [] w = Some w"
| "run (a # as) w = (case step a w of None \<Rightarrow> None | Some w' \<Rightarrow> run as w')"

subsection \<open>Reading the event log\<close>

definition is_state :: "string \<Rightarrow> event \<Rightarrow> bool" where
  "is_state st e = (fst e = LISTENING_EVENT \<and> map_of (snd e) ''state'' = Some (JString st))"

definition sessionIdOf :: "event \<Rightarrow> jsvalue option" where
  "sessionIdOf e = map_of (snd e) ''sessionId''"

definition statusOf :: "event \<Rightarrow> jsvalue option" where
  "statusOf e = map_of (snd e) ''status''"

definition stateOf :: "event \<Rightarrow> jsvalue option" where
  "stateOf e = map_of (snd e) ''state''"

definition reasonOf :: "event \<Rightarrow> jsvalue option" where
  "reasonOf e = map_of (snd e) ''reason''"

text \<open>The fields of the controller and its surroundings that a callback could change, apart
  from the two logs.\<close>

definition same_controller :: "plugin \<Rightarrow> plugin \<Rightarrow> bool" where
  "same_controller w w' =
     (state w' = state w \<and> sessionId w' = sessionId w \<and> listening w' = listening w
      \<and> readyForNext w' = readyForNext w \<and> speechRecognizer w' = speechRecognizer w
      \<and> previousPartialResults w' = previousPartialResults w
      \<and> mainQueue w' = mainQueue w \<and> engine w' = engine w)"

text \<open>The relation between the \<open>status\<close> and \<open>state\<close> fields of a payload.\<close>

definition status_derived :: "event \<Rightarrow> bool" where
  "status_derived e =
     ((statusOf e = Some (JString ''started'') \<longleftrightarrow> stateOf e = Some (JString ''started''))
      \<and> (statusOf e = Some (JString ''stopped'') \<longleftrightarrow> stateOf e = Some (JString ''stopped''))
      \<and> (statusOf e = None \<longleftrightarrow>
           stateOf e = Some (JString ''startingListening'')
           \<or> stateOf e = Some (JString ''stoppingListening''))
      \<and> (statusOf e \<noteq> None \<longleftrightarrow>
           stateOf e = Some (JString ''started'') \<or> stateOf e = Some (JString ''stopped'')))"

subsection \<open>Counting sessions\<close>

text \<open>A \<open>start\<close> whose preconditions pass, and the number of them in a list of actions.\<close>

fun passing_start :: "action \<Rightarrow> bool" where
  "passing_start (Start available granted c opts) = (available \<and> granted)"
| "passing_start a = False"

definition passes :: "action list \<Rightarrow> nat" where
  "passes as = length (filter passing_start as)"

subsection \<open>Order of events\<close>

text \<open>
  \<open>has_state st sid evs\<close>: the log \<open>evs\<close> has a listeningState event with state \<open>st\<close> and
  session id \<open>sid\<close>. \<open>before_ok\<close> and \<open>after_ok\<close> are what the log must hold before and right
  after an event; \<open>ordered_from\<close> checks them along a log.
\<close>

definition has_state :: "string \<Rightarrow> jsvalue option \<Rightarrow> event list \<Rightarrow> bool" where
  "has_state st sid evs = (\<exists>e\<in>set evs. is_state st e \<and> sessionIdOf e = sid)"

definition before_ok :: "event list \<Rightarrow> event \<Rightarrow> bool" where
  "before_ok before e =
     ((is_state ''started'' e \<or> is_state ''stoppingListening'' e \<or> is_state ''stopped'' e
         \<or> fst e = READY_FOR_NEXT_SESSION_EVENT
         \<longrightarrow> has_state ''startingListening'' (sessionIdOf e) before)
      \<and> (is_state ''stopped'' e \<or> fst e = READY_FOR_NEXT_SESSION_EVENT
         \<longrightarrow> has_state ''stoppingListening'' (sessionIdOf e) before)
      \<and> (fst e = PARTIAL_RESULTS_EVENT \<or> fst e = SEGMENT_RESULTS_EVENT
         \<longrightarrow> (\<exists>e'\<in>set before. is_state ''started'' e')))"

definition after_ok :: "event \<Rightarrow> event list \<Rightarrow> bool" where
  "after_ok e after =
     (fst e = READY_FOR_NEXT_SESSION_EVENT \<longrightarrow>
        (case after of [] \<Rightarrow> False
         | e' # rest \<Rightarrow> is_state ''stopped'' e' \<and> sessionIdOf e' = sessionIdOf e))"

fun ordered_from :: "event list \<Rightarrow> event list \<Rightarrow> bool" where
  "ordered_from before [] = True"
| "ordered_from before (e # after) =
     (before_ok before e \<and> after_ok e after \<and> ordered_from (before @ [e]) after)"

definition task_ok :: "event list \<Rightarrow> task \<Rightarrow> bool" where
  "task_ok evs t =
     (case t of
        BeginTask c partialRes sid \<Rightarrow> has_state ''startingListening'' (Some (JLong (sint sid))) evs
      | StopListeningTask \<Rightarrow> True
      | RecreateTask fid reason errorCode \<Rightarrow>
          has_state ''startingListening'' (Some (JLong (sint fid))) evs
          \<and> has_state ''stoppingListening'' (Some (JLong (sint fid))) evs)"

definition order_inv :: "plugin \<Rightarrow> bool" where
  "order_inv w =
     (ordered_from [] (events w)
      \<and> (\<forall>t\<in>set (mainQueue w). task_ok (events w) t)
      \<and> (\<forall>l\<in>set (engine w).
            has_state ''startingListening'' (Some (JLong (sint (listenerSessionId l)))) (events w)
            \<and> has_state ''started'' (Some (JLong (sint (listenerSessionId l)))) (events w))
      \<and> (mainQueue w \<noteq> [] \<or> engine w \<noteq> [] \<or> state w \<noteq> IDLE
           \<longrightarrow> has_state ''startingListening'' (Some (JLong (sint (sessionId w)))) (events w))
      \<and> (state w = STOPPING
           \<longrightarrow> has_state ''stoppingListening'' (Some (JLong (sint (sessionId w)))) (events w)))"

subsection \<open>Popup sessions\<close>



definition inline_id :: "bool list \<Rightarrow> 64 word \<Rightarrow> bool" where
  "inline_id kinds sid = (\<exists>j < length kinds. \<not> kinds ! j \<and> sid = of_nat (Suc j))"

definition session_event :: "event \<Rightarrow> bool" where
  "session_event e =
     (is_state ''started'' e \<or> is_state ''stopped'' e \<or> fst e = READY_FOR_NEXT_SESSION_EVENT
      \<or> (is_state ''stoppingListening'' e \<and> reasonOf e \<noteq> Some (JString ''userStop'')))"

definition task_inline :: "bool list \<Rightarrow> task \<Rightarrow> bool" where
  "task_inline kinds t =
     (case t of
        BeginTask c partialRes sid \<Rightarrow> inline_id kinds sid
      | StopListeningTask \<Rightarrow> True
      | RecreateTask fid reason errorCode \<Rightarrow> inline_id kinds fid)"

definition event_inline :: "bool list \<Rightarrow> event \<Rightarrow> bool" where
  "event_inline kinds e =
     (session_event e \<longrightarrow>
        (\<exists>sid. inline_id kinds sid \<and> sessionIdOf e = Some (JLong (sint sid))))"

definition popup_inv :: "bool list \<Rightarrow> plugin \<Rightarrow> bool" where
  "popup_inv kinds w =
     ((\<forall>t\<in>set (mainQueue w). task_inline kinds t)
      \<and> (\<forall>l\<in>set (engine w). inline_id kinds (listenerSessionId l))
      \<and> (\<forall>e\<in>set (events w). event_inline kinds e))"

subsection \<open>Begin runnables and the started event\<close>

text \<open>
  \<open>begin_ids q\<close> lists the session ids of the begin runnables waiting in the queue \<open>q\<close>.
  \<open>no_session sid evs\<close>: the log \<open>evs\<close> has no session event with the id \<open>sid\<close>.
  \<open>unseen sid w\<close>: the session \<open>sid\<close> has not begun: the engine has no listener for it, no
  recreate runnable for it is waiting and the log has no session event of it.
  \<open>started_from\<close> checks along a log that a \<open>started\<close> event is the first session event of
  its id. \<open>listener_of\<close> is the listener of an engine callback.
\<close>

fun begin_ids :: "task list \<Rightarrow> 64 word list" where
  "begin_ids [] = []"
| "begin_ids (BeginTask c partialRes sid # ts) = sid # begin_ids ts"
| "begin_ids (StopListeningTask # ts) = begin_ids ts"
| "begin_ids (RecreateTask fid reason errorCode # ts) = begin_ids ts"

definition no_session :: "jsvalue option \<Rightarrow> event list \<Rightarrow> bool" where
  "no_session sid evs = (\<forall>e\<in>set evs. session_event e \<longrightarrow> sessionIdOf e \<noteq> sid)"

definition unseen :: "64 word \<Rightarrow> plugin \<Rightarrow> bool" where
  "unseen sid w =
     ((\<forall>l\<in>set (engine w). listenerSessionId l \<noteq> sid)
      \<and> (\<forall>t\<in>set (mainQueue w). \<forall>reason errorCode. t \<noteq> RecreateTask sid reason errorCode)
      \<and> no_session (Some (JLong (sint sid))) (events w))"

fun started_from :: "event list \<Rightarrow> event list \<Rightarrow> bool" where
  "started_from before [] = True"
| "started_from before (e # after) =
     ((is_state ''started'' e \<longrightarrow> no_session (sessionIdOf e) before)
      \<and> started_from (before @ [e]) after)"

definition begin_inv :: "plugin \<Rightarrow> bool" where
  "begin_inv w =
     (distinct (begin_ids (mainQueue w))
      \<and> (\<forall>sid\<in>set (begin_ids (mainQueue w)). unseen sid w)
      \<and> started_from [] (events w))"


subsection \<open>The state while a popup session is the current one\<close>

text \<open>\<open>idle_inv kinds w\<close>: when the state is \<open>IDLE\<close>, either no session was started or the
  current session was started without popup.\<close>

definition idle_inv :: "bool list \<Rightarrow> plugin \<Rightarrow> bool" where
  "idle_inv kinds w = (state w = IDLE \<longrightarrow> kinds = [] \<or> inline_id kinds (sessionId w))"

subsection \<open>Progress of the main thread\<close>




subsection \<open>Sample inputs\<close>

abbreviation inlineOpts :: StartOptions where
  "inlineOpts \<equiv> \<lparr>opt_partialResults = True, opt_popup = False\<rparr>"
abbreviation popupOpts :: StartOptions where
  "popupOpts \<equiv> \<lparr>opt_partialResults = False, opt_popup = True\<rparr>"
abbreviation listener1 :: SpeechRecognitionListener where
  "listener1 \<equiv> \<lparr>listenerSessionId = 1, call = Some 1, partialResults = True\<rparr>"


section \<open>Error and reason mapper: properties\<close>

lemmas native_error_defs =
  ERROR_NETWORK_TIMEOUT_def ERROR_NETWORK_def ERROR_AUDIO_def ERROR_SERVER_def
  ERROR_CLIENT_def ERROR_SPEECH_TIMEOUT_def ERROR_NO_MATCH_def ERROR_RECOGNIZER_BUSY_def
  ERROR_INSUFFICIENT_PERMISSIONS_def

declare digit_chars.simps [simp del]

text \<open>
  Claim C6. The native-error mapper is a total function of the native code: a code outside
  the table maps to \<open>UNKNOWN_<n>\<close> with the generic message, the nine codes of the table map
  to their symbolic codes, and the derived reason is \<open>silence\<close> exactly for the no-match and
  speech-timeout codes and \<open>error\<close> for every other code; 9999 maps to \<open>UNKNOWN_9999\<close> with
  reason \<open>error\<close>.
\<close>

theorem error_mapper_total:
  "(n \<notin> mapped_codes \<longrightarrow>
      getErrorCode n = ''UNKNOWN_'' @ Integer_toString n
      \<and> getErrorText n = ''Didn't understand, please try again.'')
   \<and> (onError_reason n = ''silence'' \<longleftrightarrow> n = ERROR_NO_MATCH \<or> n = ERROR_SPEECH_TIMEOUT)
   \<and> (onError_reason n = ''silence'' \<longleftrightarrow>
        getErrorCode n = ''NO_MATCH'' \<or> getErrorCode n = ''SPEECH_TIMEOUT'')
   \<and> (onError_reason n = ''silence'' \<or> onError_reason n = ''error'')
   \<and> map getErrorCode
         [ERROR_AUDIO, ERROR_CLIENT, ERROR_INSUFFICIENT_PERMISSIONS, ERROR_NETWORK,
          ERROR_NETWORK_TIMEOUT, ERROR_NO_MATCH, ERROR_RECOGNIZER_BUSY, ERROR_SERVER,
          ERROR_SPEECH_TIMEOUT]
       = [''AUDIO'', ''CLIENT'', ''INSUFFICIENT_PERMISSIONS'', ''NETWORK'', ''NETWORK_TIMEOUT'',
          ''NO_MATCH'', ''RECOGNIZER_BUSY'', ''SERVER'', ''SPEECH_TIMEOUT'']
   \<and> onError_reason ERROR_NETWORK = ''error''
   \<and> getErrorCode 9999 = ''UNKNOWN_9999'' \<and> onError_reason 9999 = ''error''"
  by (simp add: getErrorCode_def getErrorText_def onError_reason_def mapped_codes_def
      native_error_defs Integer_toString_def digit_chars.simps)

theorem error_mapper_total_witness:
  "(-3) \<notin> mapped_codes \<and> getErrorCode (-3) = ''UNKNOWN_-3''
   \<and> getErrorText (-3) = ''Didn't understand, please try again.''
   \<and> onError_reason (-3) = ''error''"
  using error_mapper_total [of "-3"]
  by (auto simp: mapped_codes_def native_error_defs Integer_toString_def digit_chars.simps)

section \<open>Precondition failures of start\<close>

text \<open>
  Claim C8. When the engine is unavailable or the permission is not granted, \<open>start\<close> only
  completes the call with the precondition error: the session id, the listening state, the
  listening and readiness flags, the recognizer handle, the event log, the main-thread
  queue and the engine are as before.
\<close>

theorem start_precondition_failure:
  "\<not> (available \<and> granted) \<Longrightarrow>
     start available granted c opts w =
       w\<lparr>replies := replies w @
            [(c, if \<not> available then Unavailable NOT_AVAILABLE else Reject MISSING_PERMISSION)]\<rparr>
     \<and> sessionId (start available granted c opts w) = sessionId w
     \<and> state (start available granted c opts w) = state w
     \<and> listening (start available granted c opts w) = listening w
     \<and> readyForNext (start available granted c opts w) = readyForNext w
     \<and> speechRecognizer (start available granted c opts w) = speechRecognizer w
     \<and> previousPartialResults (start available granted c opts w) = previousPartialResults w
     \<and> events (start available granted c opts w) = events w
     \<and> mainQueue (start available granted c opts w) = mainQueue w
     \<and> engine (start available granted c opts w) = engine w"
  by (auto simp: start_def respond_def)

theorem start_precondition_failure_witness:
  "\<not> (True \<and> False)
   \<and> start True False 7 \<lparr>opt_partialResults = False, opt_popup = False\<rparr> init =
       init\<lparr>replies := [(7, Reject MISSING_PERMISSION)]\<rparr>
   \<and> events (start True False 7 \<lparr>opt_partialResults = False, opt_popup = False\<rparr> init) = []
   \<and> sessionId (start True False 7 \<lparr>opt_partialResults = False, opt_popup = False\<rparr> init) = 0"
  using start_precondition_failure
    [of True False 7 "\<lparr>opt_partialResults = False, opt_popup = False\<rparr>" init]
  by (simp add: init_def)

section \<open>Partial results\<close>

text \<open>
  Claim C9. The trailing unstable fragment is merged into the first match only when the
  trimmed fragment is neither equal to the trimmed first match nor its suffix after a space
  (and then the first match becomes the two trimmed texts joined by a space); and a
  partial-results callback whose matches equal the last partial snapshot
  (\<open>previousPartialResults\<close>) changes nothing, while one whose matches differ emits them and
  makes them the snapshot.
\<close>

theorem partial_merge_and_suppression:
  "(buildMatchesWithUnstableText b \<noteq> RESULTS_RECOGNITION b \<longrightarrow>
      (\<exists>fm others u.
          RESULTS_RECOGNITION b = Some (Some fm # others) \<and> UNSTABLE_TEXT b = Some u
          \<and> trim u \<noteq> trim fm \<and> \<not> endsWith (trim fm) ('' '' @ trim u)
          \<and> buildMatchesWithUnstableText b = Some (Some (trim fm @ '' '' @ trim u) # others)))
   \<and> (RESULTS_RECOGNITION b = Some (Some fm # others) \<and> UNSTABLE_TEXT b = Some u \<longrightarrow>
        buildMatchesWithUnstableText b =
          Some ((if trim u \<noteq> [] \<and> trim fm \<noteq> trim u \<and> \<not> endsWith (trim fm) ('' '' @ trim u)
                 then Some (trim fm @ '' '' @ trim u) else Some fm) # others))
   \<and> (buildMatchesWithUnstableText b' = Some (previousPartialResults w) \<longrightarrow>
        onPartialResults l b' w = w)
   \<and> (buildMatchesWithUnstableText b'' = Some ms \<and> ms \<noteq> [] \<and> ms \<noteq> previousPartialResults w'' \<longrightarrow>
        events (onPartialResults l b'' w'') = events w'' @ [(PARTIAL_RESULTS_EVENT, matchesPayload ms)]
        \<and> previousPartialResults (onPartialResults l b'' w'') = ms)"
  by (auto simp: buildMatchesWithUnstableText_def onPartialResults_def notifyListeners_def Let_def
      split: option.splits list.splits if_splits)

theorem partial_merge_and_suppression_witness:
  "buildMatchesWithUnstableText
      \<lparr>RESULTS_RECOGNITION = Some [Some ''hello '', Some ''hallo''], UNSTABLE_TEXT = Some '' world ''\<rparr>
     = Some [Some ''hello world'', Some ''hallo'']
   \<and> buildMatchesWithUnstableText
      \<lparr>RESULTS_RECOGNITION = Some [Some ''hello world''], UNSTABLE_TEXT = Some ''world''\<rparr>
     = Some [Some ''hello world'']
   \<and> onPartialResults \<lparr>listenerSessionId = 1, call = None, partialResults = True\<rparr>
        \<lparr>RESULTS_RECOGNITION = Some [Some ''hello world''], UNSTABLE_TEXT = Some ''world''\<rparr>
        (init\<lparr>previousPartialResults := [Some ''hello world'']\<rparr>)
      = init\<lparr>previousPartialResults := [Some ''hello world'']\<rparr>
   \<and> events (onPartialResults \<lparr>listenerSessionId = 1, call = None, partialResults = True\<rparr>
        \<lparr>RESULTS_RECOGNITION = Some [Some ''hello world''], UNSTABLE_TEXT = Some ''world''\<rparr>
        init) = [(PARTIAL_RESULTS_EVENT, matchesPayload [Some ''hello world''])]"
  using partial_merge_and_suppression
    [of "\<lparr>RESULTS_RECOGNITION = Some [Some ''hello '', Some ''hallo''], UNSTABLE_TEXT = Some '' world ''\<rparr>"
        "''hello ''" "[Some ''hallo'']" "'' world ''"
        "\<lparr>RESULTS_RECOGNITION = Some [Some ''hello world''], UNSTABLE_TEXT = Some ''world''\<rparr>"
        "init\<lparr>previousPartialResults := [Some ''hello world'']\<rparr>"
        "\<lparr>listenerSessionId = 1, call = None, partialResults = True\<rparr>"
        "\<lparr>RESULTS_RECOGNITION = Some [Some ''hello world''], UNSTABLE_TEXT = Some ''world''\<rparr>"
        "[Some ''hello world'']" init]
  by (simp add: trim_def isTrimmed_def endsWith_def buildMatchesWithUnstableText_def init_def)

section \<open>Basic facts about the model\<close>

lemma map_of_put: "map_of (put k v obj) k' = (if k' = k then Some v else map_of obj k')"
  by (induction obj) auto

lemma map_of_putString:
  "map_of (putString k v obj) k' = (if k' = k then map_option JString v else map_of obj k')"
proof (cases v)
  case None
  have "map_of (filter (\<lambda>kv. fst kv \<noteq> k) obj) k' = (if k' = k then None else map_of obj k')"
    by (induction obj) auto
  with None show ?thesis by (simp add: putString_def)
next
  case (Some s)
  then show ?thesis by (simp add: putString_def map_of_put)
qed

lemma runTask_case:
  "runTask outcome t w =
     (case t of
        BeginTask c partialRes sid \<Rightarrow> Some (beginTask outcome c partialRes sid w)
      | StopListeningTask \<Rightarrow> stopListeningTask w
      | RecreateTask fid reason errorCode \<Rightarrow> Some (recreateTask outcome fid reason errorCode w))"
  by (cases t) simp_all


lemma run_snoc:
  "run (as @ [a]) w = (case run as w of None \<Rightarrow> None | Some w' \<Rightarrow> step a w')"
  by (induction as arbitrary: w) (auto split: option.splits)

lemmas op_defs = start_def stop_def isListening_def listeningResult_def beginListening_def
  stopListening_def finishSession_def beginFailed_def beginTask_def stopListeningTask_def
  recreateTask_def onError_def onResults_def onPartialResults_def onSegmentResults_def
  onEndOfSegmentedSession_def onSilentCallback_def callback_def notifyListeners_def respond_def
  post_def Let_def runTask_case

lemmas step_splits = if_splits option.splits list.splits task.splits
  native_outcome.splits ActivityResult.splits

lemmas payload_defs = startingPayload_def startedPayload_def stoppingPayload_def stoppedPayload_def
  errorPayload_def readyPayload_def matchesPayload_def putString_def JSArray_def

lemma is_state_payloads [simp]:
  "is_state st (LISTENING_EVENT, startingPayload sid) = (st = ''startingListening'')"
  "is_state st (LISTENING_EVENT, startedPayload sid) = (st = ''started'')"
  "is_state st (LISTENING_EVENT, stoppingPayload sid r ec) = (st = ''stoppingListening'')"
  "is_state st (LISTENING_EVENT, stoppedPayload sid r ec) = (st = ''stopped'')"
  "is_state st (ERROR_EVENT, p) = False"
  "is_state st (READY_FOR_NEXT_SESSION_EVENT, p) = False"
  "is_state st (PARTIAL_RESULTS_EVENT, p) = False"
  "is_state st (SEGMENT_RESULTS_EVENT, p) = False"
  "is_state st (END_OF_SEGMENT_EVENT, p) = False"
  by (auto simp: is_state_def payload_defs map_of_put Let_def split: option.splits)

lemma sessionIdOf_payloads [simp]:
  "sessionIdOf (n, startingPayload sid) = Some (JLong (sint sid))"
  "sessionIdOf (n, startedPayload sid) = Some (JLong (sint sid))"
  "sessionIdOf (n, stoppingPayload sid r ec) = Some (JLong (sint sid))"
  "sessionIdOf (n, stoppedPayload sid r ec) = Some (JLong (sint sid))"
  "sessionIdOf (n, errorPayload c m sid) = Some (JLong (sint sid))"
  "sessionIdOf (n, readyPayload sid) = Some (JLong (sint sid))"
  by (auto simp: sessionIdOf_def payload_defs map_of_put Let_def split: option.splits)

lemma statusOf_payloads [simp]:
  "statusOf (n, startingPayload sid) = None"
  "statusOf (n, startedPayload sid) = Some (JString ''started'')"
  "statusOf (n, stoppingPayload sid r ec) = None"
  "statusOf (n, stoppedPayload sid r ec) = Some (JString ''stopped'')"
  by (auto simp: statusOf_def payload_defs map_of_put Let_def split: option.splits)

lemma stateOf_payloads [simp]:
  "stateOf (n, startingPayload sid) = Some (JString ''startingListening'')"
  "stateOf (n, startedPayload sid) = Some (JString ''started'')"
  "stateOf (n, stoppingPayload sid r ec) = Some (JString ''stoppingListening'')"
  "stateOf (n, stoppedPayload sid r ec) = Some (JString ''stopped'')"
  by (auto simp: stateOf_def payload_defs map_of_put Let_def split: option.splits)

lemma reasonOf_payloads [simp]:
  "reasonOf (n, startingPayload sid) = Some (JString ''userStart'')"
  "reasonOf (n, startedPayload sid) = Some (JString ''userStart'')"
  "reasonOf (n, stoppingPayload sid r ec) = Some (JString r)"
  "reasonOf (n, stoppedPayload sid r ec) = Some (JString r)"
  by (auto simp: reasonOf_def payload_defs map_of_put Let_def split: option.splits)

lemma status_derived_payloads [simp]:
  "status_derived (n, startingPayload sid)"
  "status_derived (n, startedPayload sid)"
  "status_derived (n, stoppingPayload sid r ec)"
  "status_derived (n, stoppedPayload sid r ec)"
  by (simp_all add: status_derived_def)

lemma sint_of_nat_small: "i < 2 ^ 63 \<Longrightarrow> sint (of_nat i :: 64 word) = int i"
proof -
  assume a: "i < 2 ^ 63"
  have "sint (of_nat i :: 64 word) = signed_take_bit 63 (int i)"
    by (simp add: signed_of_nat)
  also have "\<dots> = int i"
  proof (rule signed_take_bit_int_eq_self)
    show "- (2 ^ 63) \<le> int i" by simp
    have "int i < int (2 ^ 63)" using a by (simp only: of_nat_less_iff)
    then show "int i < 2 ^ 63" by simp
  qed
  finally show ?thesis .
qed



section \<open>isListening\<close>

lemma step_listening_not_idle:
  "step a w = Some w' \<Longrightarrow> (listening w \<longrightarrow> state w \<noteq> IDLE) \<Longrightarrow> (listening w' \<longrightarrow> state w' \<noteq> IDLE)"
  by (cases a) (auto simp: op_defs split: if_splits option.splits list.splits task.splits
       native_outcome.splits ActivityResult.splits)

lemma run_listening_not_idle:
  "run as init = Some w \<Longrightarrow> listening w \<longrightarrow> state w \<noteq> IDLE"
proof (induction as arbitrary: w rule: rev_induct)
  case Nil
  then show ?case by (auto simp: init_def)
next
  case (snoc a as)
  then obtain w0 where "run as init = Some w0" and "step a w0 = Some w"
    by (auto simp: run_snoc split: option.splits)
  with snoc.IH show ?case using step_listening_not_idle by blast
qed

text \<open>
  Claim C4 (as amended). \<open>isListening\<close> reports the \<open>listening\<close> flag, and in every state that a
  run reaches from the initial one the flag is set only while the state is not \<open>IDLE\<close>.
  The flag is not the test \<open>state \<noteq> IDLE\<close>: the flag can be false in a state other than
  \<open>IDLE\<close>.
\<close>

theorem isListening_reports_flag:
  "run as init = Some w \<Longrightarrow>
     replies (isListening c w) = replies w @ [(c, Resolve [(''listening'', JBoolean (listening w))])]
     \<and> (listening w \<longrightarrow> state w \<noteq> IDLE)"
  using run_listening_not_idle [of as w] by (simp add: isListening_def respond_def)

theorem isListening_reports_flag_witness:
  "run [Start True True 1 inlineOpts, RunNext NativeOk] init \<noteq> None
   \<and> listening (the (run [Start True True 1 inlineOpts, RunNext NativeOk] init))
   \<and> state (the (run [Start True True 1 inlineOpts, RunNext NativeOk] init)) = STARTED
   \<and> replies (isListening 2 (the (run [Start True True 1 inlineOpts, RunNext NativeOk] init)))
       = [(1, ResolveVoid), (2, Resolve [(''listening'', JBoolean True)])]"
proof -
  have r: "run [Start True True 1 inlineOpts, RunNext NativeOk] init
           = Some (the (run [Start True True 1 inlineOpts, RunNext NativeOk] init))"
    by (simp add: op_defs init_def)
  from isListening_reports_flag [OF r, of 2] r show ?thesis
    by (simp add: op_defs init_def)
qed

text \<open>Right after a successful \<open>start\<close> the state is \<open>STARTING\<close> and \<open>isListening\<close> reports
  false.\<close>

theorem isListening_counterexample:
  "map_option state (run [Start True True 1 inlineOpts] init)
     = Some STARTING
   \<and> map_option (replies \<circ> isListening 2)
       (run [Start True True 1 inlineOpts] init)
     = Some [(2, Resolve [(''listening'', JBoolean False)])]"
  by (simp add: op_defs init_def)

section \<open>The status field of listeningState events\<close>

lemma step_status_derived:
  assumes "step a w = Some w'"
    and "\<forall>e\<in>set (events w). fst e = LISTENING_EVENT \<longrightarrow> status_derived e"
  shows "\<forall>e\<in>set (events w'). fst e = LISTENING_EVENT \<longrightarrow> status_derived e"
  using assms
  by (cases a) (auto simp: op_defs split: step_splits)

lemma run_status_derived:
  "run as init = Some w \<Longrightarrow> \<forall>e\<in>set (events w). fst e = LISTENING_EVENT \<longrightarrow> status_derived e"
proof (induction as arbitrary: w rule: rev_induct)
  case Nil
  then show ?case by (auto simp: init_def)
next
  case (snoc a as)
  then obtain w0 where "run as init = Some w0" and "step a w0 = Some w"
    by (auto simp: run_snoc split: option.splits)
  with snoc.IH show ?case using step_status_derived by blast
qed

text \<open>
  Claim C5 (as amended). In every listeningState event of a run, \<open>status\<close> is \<open>started\<close>
  exactly when \<open>state\<close> is \<open>started\<close> and \<open>stopped\<close> exactly when \<open>state\<close> is \<open>stopped\<close>; the
  event carries a \<open>status\<close> field exactly when its state is one of these two, and none when
  its state is \<open>startingListening\<close> or \<open>stoppingListening\<close>.
\<close>

theorem listening_status_derived:
  "run as init = Some w \<Longrightarrow> e \<in> set (events w) \<Longrightarrow> fst e = LISTENING_EVENT \<Longrightarrow>
     (statusOf e = Some (JString ''started'') \<longleftrightarrow> stateOf e = Some (JString ''started''))
     \<and> (statusOf e = Some (JString ''stopped'') \<longleftrightarrow> stateOf e = Some (JString ''stopped''))
     \<and> (statusOf e \<noteq> None \<longleftrightarrow>
          stateOf e = Some (JString ''started'') \<or> stateOf e = Some (JString ''stopped''))
     \<and> (statusOf e = None \<longleftrightarrow>
          stateOf e = Some (JString ''startingListening'')
          \<or> stateOf e = Some (JString ''stoppingListening''))"
  using run_status_derived [of as w] by (auto simp: status_derived_def)

theorem listening_status_derived_witness:
  "run [Start True True 1 inlineOpts, RunNext NativeOk] init \<noteq> None
   \<and> (LISTENING_EVENT, startedPayload 1)
       \<in> set (events (the (run [Start True True 1 inlineOpts, RunNext NativeOk] init)))
   \<and> statusOf (LISTENING_EVENT, startedPayload 1) = Some (JString ''started'')
   \<and> stateOf (LISTENING_EVENT, startedPayload 1) = Some (JString ''started'')"
proof -
  have r: "run [Start True True 1 inlineOpts, RunNext NativeOk] init
           = Some (the (run [Start True True 1 inlineOpts, RunNext NativeOk] init))"
    by (simp add: op_defs init_def)
  have m: "(LISTENING_EVENT, startedPayload 1)
       \<in> set (events (the (run [Start True True 1 inlineOpts, RunNext NativeOk] init)))"
    by (simp add: op_defs init_def)
  from listening_status_derived [OF r m] show ?thesis
    by (simp add: op_defs init_def)
qed

text \<open>The \<open>startingListening\<close> event that \<open>start\<close> emits has no \<open>status\<close> field.\<close>

theorem listening_status_counterexample:
  "map_option (map fst \<circ> events) (run [Start True True 1 inlineOpts] init) = Some [LISTENING_EVENT]
   \<and> map_option (map statusOf \<circ> events) (run [Start True True 1 inlineOpts] init) = Some [None]
   \<and> map_option (map stateOf \<circ> events) (run [Start True True 1 inlineOpts] init)
       = Some [Some (JString ''startingListening'')]"
  by (simp add: op_defs init_def)

section \<open>Stale callbacks\<close>

text \<open>
  Claim C1 (as amended). For a listener whose session id differs from the current one:
  \<open>finishSession\<close> with its id changes nothing; \<open>onError\<close> emits exactly one error event,
  tagged with the listener's id, and leaves the controller as it is; \<open>onResults\<close> leaves the
  controller as it is and emits no event other than, possibly, a partialResults event.
\<close>

theorem stale_callbacks:
  "listenerSessionId l \<noteq> sessionId w \<Longrightarrow>
     finishSession (listenerSessionId l) reason ec w = w
     \<and> events (onError l error w) =
         events w @ [(ERROR_EVENT,
                      errorPayload (getErrorCode error) (Some (getErrorText error))
                        (listenerSessionId l))]
     \<and> same_controller w (onError l error w)
     \<and> same_controller w (onResults l results thrown w)
     \<and> filter (\<lambda>e. fst e \<noteq> PARTIAL_RESULTS_EVENT) (events (onResults l results thrown w))
         = filter (\<lambda>e. fst e \<noteq> PARTIAL_RESULTS_EVENT) (events w)"
  by (auto simp: op_defs same_controller_def split: option.splits)

theorem stale_callbacks_witness:
  "listenerSessionId listener1 \<noteq> sessionId (init\<lparr>sessionId := 2\<rparr>)
   \<and> finishSession 1 ''results'' None (init\<lparr>sessionId := 2\<rparr>) = init\<lparr>sessionId := 2\<rparr>
   \<and> events (onError listener1 ERROR_NO_MATCH (init\<lparr>sessionId := 2\<rparr>))
      = [(ERROR_EVENT, [(''code'', JString ''NO_MATCH''), (''message'', JString ''No match''),
                         (''sessionId'', JLong 1)])]"
  using stale_callbacks [of listener1 "init\<lparr>sessionId := 2\<rparr>" "''results''" None ERROR_NO_MATCH]
  by (simp add: init_def payload_defs getErrorCode_def getErrorText_def native_error_defs)

text \<open>Session 1 is listening when session 2 starts; an \<open>onError\<close> of session 1's listener
  then still emits an error event.\<close>

theorem stale_callbacks_counterexample:
  "run [Start True True 1 inlineOpts, RunNext NativeOk, Start True True 2 inlineOpts] init \<noteq> None
   \<and> sessionId (the (run [Start True True 1 inlineOpts, RunNext NativeOk,
                          Start True True 2 inlineOpts] init)) = 2
   \<and> listenerSessionId listener1 = 1
   \<and> listener1 \<in> set (engine (the (run [Start True True 1 inlineOpts, RunNext NativeOk,
                          Start True True 2 inlineOpts] init)))
   \<and> events (onError listener1 ERROR_NO_MATCH
        (the (run [Start True True 1 inlineOpts, RunNext NativeOk,
                   Start True True 2 inlineOpts] init)))
     = events (the (run [Start True True 1 inlineOpts, RunNext NativeOk,
                         Start True True 2 inlineOpts] init))
       @ [(ERROR_EVENT, [(''code'', JString ''NO_MATCH''), (''message'', JString ''No match''),
                         (''sessionId'', JLong 1)])]"
  by (simp add: op_defs init_def payload_defs getErrorCode_def getErrorText_def native_error_defs
      onError_reason_def)

section \<open>Session ids\<close>

lemma passes_snoc: "passes (as @ [a]) = (if passing_start a then Suc (passes as) else passes as)"
  by (simp add: passes_def)

lemma step_sessionId:
  "step a w = Some w' \<Longrightarrow>
     sessionId w' = (if passing_start a then sessionId w + 1 else sessionId w)"
  by (cases a) (auto simp: op_defs split: step_splits)

lemma step_starting_events:
  "step a w = Some w' \<Longrightarrow>
     filter (is_state ''startingListening'') (events w') =
       filter (is_state ''startingListening'') (events w)
       @ (if passing_start a then [(LISTENING_EVENT, startingPayload (sessionId w + 1))] else [])"
  by (cases a) (auto simp: op_defs split: step_splits)

lemma run_session_ids:
  "run as init = Some w \<Longrightarrow>
     sessionId w = of_nat (passes as)
     \<and> map sessionIdOf (filter (is_state ''startingListening'') (events w))
       = map (\<lambda>i. Some (JLong (sint (of_nat i :: 64 word)))) [1..<Suc (passes as)]"
proof (induction as arbitrary: w rule: rev_induct)
  case Nil
  then show ?case by (auto simp: init_def passes_def)
next
  case (snoc a as)
  then obtain w0 where r: "run as init = Some w0" and s: "step a w0 = Some w"
    by (auto simp: run_snoc split: option.splits)
  from snoc.IH [OF r] step_sessionId [OF s] step_starting_events [OF s]
  show ?case by (auto simp: passes_snoc add.commute)
qed

text \<open>
  Claim C7. \<open>start\<close> with passing preconditions adds one to the session id (a Java \<open>long\<close>).
  In a run from the initial state with fewer than \<open>2^63\<close> such calls, the session ids of
  the \<open>startingListening\<close> events are, in order, \<open>1, 2, ..., N\<close> for the \<open>N\<close> calls made, and
  \<open>N\<close> is the current session id.
\<close>

theorem session_ids_consecutive:
  "run as init = Some w \<Longrightarrow> passes as < 2 ^ 63 \<Longrightarrow>
     map sessionIdOf (filter (is_state ''startingListening'') (events w))
       = map (\<lambda>i. Some (JLong (int i))) [1..<Suc (passes as)]
     \<and> sint (sessionId w) = int (passes as)
     \<and> sessionId (start True True c opts w) = sessionId w + 1
     \<and> (passes as + 1 < 2 ^ 63 \<longrightarrow> sint (sessionId (start True True c opts w)) = sint (sessionId w) + 1)"
proof -
  assume r: "run as init = Some w" and b: "passes as < 2 ^ 63"
  have small: "\<And>i. i \<in> set [1..<Suc (passes as)] \<Longrightarrow> sint (of_nat i :: 64 word) = int i"
    using b by (intro sint_of_nat_small) auto
  have ids: "map sessionIdOf (filter (is_state ''startingListening'') (events w))
       = map (\<lambda>i. Some (JLong (int i))) [1..<Suc (passes as)]"
    using run_session_ids [OF r] small by (simp cong: map_cong)
  have cur: "sint (sessionId w) = int (passes as)"
    using run_session_ids [OF r] b by (simp add: sint_of_nat_small)
  have nxt: "sessionId (start True True c opts w) = sessionId w + 1"
    by (simp add: op_defs)
  have "passes as + 1 < 2 ^ 63 \<Longrightarrow> sint (sessionId w + 1) = int (passes as) + 1"
  proof -
    assume "passes as + 1 < 2 ^ 63"
    then have "sint (of_nat (passes as + 1) :: 64 word) = int (passes as + 1)"
      by (rule sint_of_nat_small)
    then show ?thesis using run_session_ids [OF r] by (simp add: add.commute)
  qed
  with ids cur nxt show ?thesis by simp
qed

theorem session_ids_consecutive_witness:
  "run [Start True True 1 inlineOpts, RunNext NativeOk, Start True False 2 inlineOpts,
        Start True True 3 popupOpts, Stop 4, Start True True 5 inlineOpts] init \<noteq> None
   \<and> passes [Start True True 1 inlineOpts, RunNext NativeOk, Start True False 2 inlineOpts,
        Start True True 3 popupOpts, Stop 4, Start True True 5 inlineOpts] = 3
   \<and> map sessionIdOf (filter (is_state ''startingListening'')
        (events (the (run [Start True True 1 inlineOpts, RunNext NativeOk,
           Start True False 2 inlineOpts, Start True True 3 popupOpts, Stop 4,
           Start True True 5 inlineOpts] init))))
      = [Some (JLong 1), Some (JLong 2), Some (JLong 3)]
   \<and> sint (sessionId (start True True 9 inlineOpts
        (the (run [Start True True 1 inlineOpts, RunNext NativeOk,
           Start True False 2 inlineOpts, Start True True 3 popupOpts, Stop 4,
           Start True True 5 inlineOpts] init)))) = 4"
proof -
  let ?as = "[Start True True 1 inlineOpts, RunNext NativeOk, Start True False 2 inlineOpts,
        Start True True 3 popupOpts, Stop 4, Start True True 5 inlineOpts]"
  have r: "run ?as init = Some (the (run ?as init))"
    by (simp add: op_defs init_def)
  have b: "passes ?as < 2 ^ 63" by (simp add: passes_def)
  from session_ids_consecutive [OF r b, of 9 inlineOpts] show ?thesis
    by (simp add: op_defs init_def passes_def upt_rec)
qed

section \<open>Order of the events of a session\<close>

lemma has_state_simps [simp]:
  "has_state st sid [] = False"
  "has_state st sid (evs @ evs') = (has_state st sid evs \<or> has_state st sid evs')"
  "has_state st sid (e # evs) = ((is_state st e \<and> sessionIdOf e = sid) \<or> has_state st sid evs)"
  by (auto simp: has_state_def)

lemma before_ok_simps [simp]:
  "before_ok evs (LISTENING_EVENT, startingPayload sid)"
  "before_ok evs (LISTENING_EVENT, startedPayload sid)
     = has_state ''startingListening'' (Some (JLong (sint sid))) evs"
  "before_ok evs (LISTENING_EVENT, stoppingPayload sid r ec)
     = has_state ''startingListening'' (Some (JLong (sint sid))) evs"
  "before_ok evs (LISTENING_EVENT, stoppedPayload sid r ec)
     = (has_state ''startingListening'' (Some (JLong (sint sid))) evs
        \<and> has_state ''stoppingListening'' (Some (JLong (sint sid))) evs)"
  "before_ok evs (READY_FOR_NEXT_SESSION_EVENT, readyPayload sid)
     = (has_state ''startingListening'' (Some (JLong (sint sid))) evs
        \<and> has_state ''stoppingListening'' (Some (JLong (sint sid))) evs)"
  "before_ok evs (ERROR_EVENT, p)"
  "before_ok evs (END_OF_SEGMENT_EVENT, p)"
  "before_ok evs (PARTIAL_RESULTS_EVENT, p) = (\<exists>e'\<in>set evs. is_state ''started'' e')"
  "before_ok evs (SEGMENT_RESULTS_EVENT, p) = (\<exists>e'\<in>set evs. is_state ''started'' e')"
  by (auto simp: before_ok_def)

lemma after_ok_simps [simp]:
  "after_ok (LISTENING_EVENT, p) after"
  "after_ok (ERROR_EVENT, p) after"
  "after_ok (END_OF_SEGMENT_EVENT, p) after"
  "after_ok (PARTIAL_RESULTS_EVENT, p) after"
  "after_ok (SEGMENT_RESULTS_EVENT, p) after"
  "after_ok (READY_FOR_NEXT_SESSION_EVENT, readyPayload sid) (e' # rest)
     = (is_state ''stopped'' e' \<and> sessionIdOf e' = Some (JLong (sint sid)))"
  "after_ok (READY_FOR_NEXT_SESSION_EVENT, p) [] = False"
  by (auto simp: after_ok_def)

lemma ordered_from_last:
  "ordered_from pre (xs @ [x]) \<Longrightarrow> fst x \<noteq> READY_FOR_NEXT_SESSION_EVENT"
  by (induction xs arbitrary: pre) (auto simp: after_ok_def)

lemma after_ok_append:
  "after_ok e after \<Longrightarrow> after_ok e (after @ ys)"
  by (auto simp: after_ok_def split: list.splits)



lemma order_inv_respond [simp]: "order_inv (respond c r w) = order_inv w"
  by (simp add: order_inv_def respond_def)

lemma order_inv_frame [simp]:
  "order_inv (w\<lparr>listening := b\<rparr>) = order_inv w"
  "order_inv (w\<lparr>speechRecognizer := sr\<rparr>) = order_inv w"
  "order_inv (w\<lparr>readyForNext := b\<rparr>) = order_inv w"
  "order_inv (w\<lparr>previousPartialResults := ms\<rparr>) = order_inv w"
  by (simp_all add: order_inv_def)

lemma task_ok_simps [simp]:
  "task_ok evs (BeginTask c partialRes sid)
     = has_state ''startingListening'' (Some (JLong (sint sid))) evs"
  "task_ok evs StopListeningTask"
  "task_ok evs (RecreateTask fid reason errorCode)
     = (has_state ''startingListening'' (Some (JLong (sint fid))) evs
        \<and> has_state ''stoppingListening'' (Some (JLong (sint fid))) evs)"
  by (simp_all add: task_ok_def)




lemma events_finishSession_mono:
  "has_state st sid (events w) \<Longrightarrow> has_state st sid (events (finishSession fid r ec w))"
  by (auto simp: finishSession_def notifyListeners_def post_def Let_def)













lemma other_payloads [simp]:
  "stateOf (n, readyPayload sid) = None"
  "stateOf (n, matchesPayload ms) = None"
  "stateOf (n, errorPayload c m sid) = None"
  "statusOf (n, readyPayload sid) = None"
  "statusOf (n, matchesPayload ms) = None"
  "statusOf (n, errorPayload c m sid) = None"
  "sessionIdOf (n, matchesPayload ms) = None"
  by (auto simp: stateOf_def statusOf_def sessionIdOf_def payload_defs map_of_put
      split: option.splits)

section \<open>Popup sessions\<close>

lemma inline_id_mono: "inline_id kinds sid \<Longrightarrow> inline_id (kinds @ ks) sid"
proof -
  assume "inline_id kinds sid"
  then obtain j where j: "j < length kinds" "\<not> kinds ! j" "sid = of_nat (Suc j)"
    by (auto simp: inline_id_def)
  then have "j < length (kinds @ ks) \<and> \<not> (kinds @ ks) ! j \<and> sid = of_nat (Suc j)"
    by (simp add: nth_append)
  then show ?thesis unfolding inline_id_def by blast
qed


lemma task_inline_simps [simp]:
  "task_inline kinds (BeginTask c partialRes sid) = inline_id kinds sid"
  "task_inline kinds StopListeningTask"
  "task_inline kinds (RecreateTask fid reason errorCode) = inline_id kinds fid"
  by (simp_all add: task_inline_def)




lemma event_inline_simps [simp]:
  "event_inline kinds (LISTENING_EVENT, startingPayload sid)"
  "event_inline kinds (LISTENING_EVENT, stoppingPayload sid ''userStop'' ec)"
  "event_inline kinds (ERROR_EVENT, p)"
  "event_inline kinds (PARTIAL_RESULTS_EVENT, p)"
  "event_inline kinds (SEGMENT_RESULTS_EVENT, p)"
  "event_inline kinds (END_OF_SEGMENT_EVENT, p)"
  "inline_id kinds sid \<Longrightarrow> event_inline kinds (LISTENING_EVENT, startedPayload sid)"
  "inline_id kinds sid \<Longrightarrow> event_inline kinds (LISTENING_EVENT, stoppingPayload sid r ec)"
  "inline_id kinds sid \<Longrightarrow> event_inline kinds (LISTENING_EVENT, stoppedPayload sid r ec)"
  "inline_id kinds sid \<Longrightarrow> event_inline kinds (READY_FOR_NEXT_SESSION_EVENT, readyPayload sid)"
  by (auto simp: event_inline_def session_event_def)

lemma popup_inv_respond [simp]: "popup_inv kinds (respond c r w) = popup_inv kinds w"
  by (simp add: popup_inv_def respond_def)

lemma popup_inv_frame [simp]:
  "popup_inv kinds (w\<lparr>listening := b\<rparr>) = popup_inv kinds w"
  "popup_inv kinds (w\<lparr>speechRecognizer := sr\<rparr>) = popup_inv kinds w"
  "popup_inv kinds (w\<lparr>readyForNext := b\<rparr>) = popup_inv kinds w"
  "popup_inv kinds (w\<lparr>previousPartialResults := ms\<rparr>) = popup_inv kinds w"
  "popup_inv kinds (w\<lparr>state := s\<rparr>) = popup_inv kinds w"
  "popup_inv kinds (w\<lparr>sessionId := x\<rparr>) = popup_inv kinds w"
  by (simp_all add: popup_inv_def)
















lemma idle_inv_frame [simp]:
  "idle_inv kinds (respond c r w) = idle_inv kinds w"
  "idle_inv kinds (notifyListeners n p w) = idle_inv kinds w"
  "idle_inv kinds (post t w) = idle_inv kinds w"
  "idle_inv kinds (w\<lparr>listening := b\<rparr>) = idle_inv kinds w"
  "idle_inv kinds (w\<lparr>speechRecognizer := sr\<rparr>) = idle_inv kinds w"
  "idle_inv kinds (w\<lparr>readyForNext := b\<rparr>) = idle_inv kinds w"
  "idle_inv kinds (w\<lparr>previousPartialResults := ms\<rparr>) = idle_inv kinds w"
  "idle_inv kinds (w\<lparr>mainQueue := q\<rparr>) = idle_inv kinds w"
  "idle_inv kinds (w\<lparr>engine := en\<rparr>) = idle_inv kinds w"
  by (simp_all add: idle_inv_def respond_def notifyListeners_def post_def)

lemma idle_inv_mono: "idle_inv kinds w \<Longrightarrow> kinds \<noteq> [] \<Longrightarrow> idle_inv (kinds @ ks) w"
  by (auto simp: idle_inv_def inline_id_mono)











section \<open>The started event of a session\<close>

lemma session_event_payloads [simp]:
  "session_event (LISTENING_EVENT, startingPayload sid) = False"
  "session_event (LISTENING_EVENT, startedPayload sid) = True"
  "session_event (LISTENING_EVENT, stoppingPayload sid r ec) = (r \<noteq> ''userStop'')"
  "session_event (LISTENING_EVENT, stoppedPayload sid r ec) = True"
  "session_event (READY_FOR_NEXT_SESSION_EVENT, p) = True"
  "session_event (ERROR_EVENT, p) = False"
  "session_event (PARTIAL_RESULTS_EVENT, p) = False"
  "session_event (SEGMENT_RESULTS_EVENT, p) = False"
  "session_event (END_OF_SEGMENT_EVENT, p) = False"
  by (auto simp: session_event_def)


lemma no_session_simps [simp]:
  "no_session sid []"
  "no_session sid (evs @ evs') = (no_session sid evs \<and> no_session sid evs')"
  "no_session sid (e # evs) = ((session_event e \<longrightarrow> sessionIdOf e \<noteq> sid) \<and> no_session sid evs)"
  by (auto simp: no_session_def)




lemma unseen_frame [simp]:
  "unseen sid (respond c r w) = unseen sid w"
  "unseen sid (w\<lparr>listening := b\<rparr>) = unseen sid w"
  "unseen sid (w\<lparr>speechRecognizer := sr\<rparr>) = unseen sid w"
  "unseen sid (w\<lparr>readyForNext := b\<rparr>) = unseen sid w"
  "unseen sid (w\<lparr>previousPartialResults := ms\<rparr>) = unseen sid w"
  "unseen sid (w\<lparr>state := s\<rparr>) = unseen sid w"
  "unseen sid (w\<lparr>sessionId := x\<rparr>) = unseen sid w"
  by (simp_all add: unseen_def respond_def)

lemma begin_inv_frame [simp]:
  "begin_inv (respond c r w) = begin_inv w"
  "begin_inv (w\<lparr>listening := b\<rparr>) = begin_inv w"
  "begin_inv (w\<lparr>speechRecognizer := sr\<rparr>) = begin_inv w"
  "begin_inv (w\<lparr>readyForNext := b\<rparr>) = begin_inv w"
  "begin_inv (w\<lparr>previousPartialResults := ms\<rparr>) = begin_inv w"
  "begin_inv (w\<lparr>state := s\<rparr>) = begin_inv w"
  "begin_inv (w\<lparr>sessionId := x\<rparr>) = begin_inv w"
  by (simp_all add: begin_inv_def unseen_def respond_def)







lemma begin_ids_queue [simp]:
  "mainQueue (notifyListeners n p w) = mainQueue w"
  "mainQueue (respond c r w) = mainQueue w"
  by (simp_all add: notifyListeners_def respond_def)



















section \<open>The terminal event\<close>

















end
